theory Spec2Isabelle
  imports Complex_Main "HOL-Library.Monad_Syntax" "HOL-Library.Log_Nat"
begin

section \<open>Conventions of the embedding\<close>

text \<open>
  The trading system is Python over pandas, NumPy, scikit-learn and Keras.  Python floats
  are modelled as \<^typ>\<open>real\<close>: every comparison and arithmetic step of the source is kept,
  rounding and the special values NaN and infinity are left out.  The label thresholds of
  \<^verbatim>\<open>prepare_data\<close> are the exception: a label at the boundary depends on the rounding of
  a product, so that product is rounded to double precision (\<open>float_mul\<close> below).  A block
  \<^verbatim>\<open>try: ... except Exception: return default\<close> whose handler throws the exception away
  is an \<^typ>\<open>'a option\<close> computation followed by the default; a function that re-raises returns
  \<open>error + 'a\<close>.
\<close>

datatype error = KeyError | IndexError | ValueError | FileNotFoundError | LoadError

text \<open>
  A pandas DataFrame: the column labels and the rows, each row giving a value to a label.
  A row is only ever read at a label that has been checked against \<open>columns\<close>, or through
  \<open>row_get\<close>, the \<^verbatim>\<open>Series.get(key, default)\<close> of pandas.
\<close>

record dataframe =
  columns :: "string list"
  rows :: "(string \<Rightarrow> real) list"

text \<open>\<^verbatim>\<open>df.iloc[-1]\<close>: the last row, IndexError on an empty frame.\<close>

definition iloc_last :: "dataframe \<Rightarrow> (string \<Rightarrow> real) option" where
  "iloc_last df = (if rows df = [] then None else Some (last (rows df)))"

definition row_get :: "dataframe \<Rightarrow> (string \<Rightarrow> real) \<Rightarrow> string \<Rightarrow> real \<Rightarrow> real" where
  "row_get df r k d = (if k \<in> set (columns df) then r k else d)"

text \<open>\<^verbatim>\<open>d.get(key, [])\<close> on a dictionary of lists.\<close>

definition dict_get :: "(string \<rightharpoonup> real list) \<Rightarrow> string \<Rightarrow> real list" where
  "dict_get d k = (case d k of None \<Rightarrow> [] | Some v \<Rightarrow> v)"

text \<open>\<^verbatim>\<open>max(xs, default=None)\<close> and \<^verbatim>\<open>min(xs, default=None)\<close>.\<close>

definition max_default :: "real list \<Rightarrow> real option" where
  "max_default xs = (case xs of [] \<Rightarrow> None | x # r \<Rightarrow> Some (fold max r x))"

definition min_default :: "real list \<Rightarrow> real option" where
  "min_default xs = (case xs of [] \<Rightarrow> None | x # r \<Rightarrow> Some (fold min r x))"

text \<open>
  The truth value Python gives to \<^verbatim>\<open>if v:\<close> when \<open>v\<close> is a float or \<^verbatim>\<open>None\<close>:
  \<^verbatim>\<open>None\<close> and \<^verbatim>\<open>0.0\<close> are false.
\<close>

definition truthy :: "real option \<Rightarrow> bool" where
  "truthy v = (case v of None \<Rightarrow> False | Some x \<Rightarrow> x \<noteq> 0)"

section \<open>signal\_logic.py: SignalGenerator\<close>

datatype signal_type = STRONG_BUY | BUY | SELL | STRONG_SELL | NEUTRAL

definition min_confidence :: real where
  "min_confidence = 0.7"

definition risk_reward_ratio_cfg :: real where
  "risk_reward_ratio_cfg = 2.0"

text \<open>The record that \<^verbatim>\<open>AIModel.predict\<close> returns, as a dictionary whose keys may be absent.\<close>

record ai_prediction =
  signal :: string
  confidence :: "real option"
  probabilities :: "(string \<rightharpoonup> real) option"
  timestamp :: string

text \<open>The body of the \<^verbatim>\<open>try\<close> of \<^verbatim>\<open>_evaluate_ai_signal\<close>; \<^verbatim>\<open>or\<close> does not read
  \<^verbatim>\<open>probabilities['sell']\<close> when the buy test already holds.\<close>

definition evaluate_ai_signal_body :: "ai_prediction \<Rightarrow> real option" where
  "evaluate_ai_signal_body p = do {
     signal_strength \<leftarrow> confidence p;
     probs \<leftarrow> probabilities p;
     b \<leftarrow> probs ''buy'';
     if b > 0.7 then Some (min (signal_strength * 1.2) 1.0)
     else do {
       s \<leftarrow> probs ''sell'';
       Some (min (if s > 0.7 then signal_strength * 1.2 else signal_strength) 1.0)
     }
   }"

definition evaluate_ai_signal :: "ai_prediction \<Rightarrow> real" where
  "evaluate_ai_signal p = (case evaluate_ai_signal_body p of None \<Rightarrow> 0.0 | Some v \<Rightarrow> v)"

definition evaluate_trend :: "dataframe \<Rightarrow> real" where
  "evaluate_trend df =
     (case iloc_last df of
        None \<Rightarrow> 0.0
      | Some latest \<Rightarrow>
          let t0 = (0.0::real);
              t1 = (if ''sma_20'' \<in> set (columns df) \<and> ''sma_50'' \<in> set (columns df) then
                      (if latest ''sma_20'' > latest ''sma_50'' then t0 + 0.3
                       else if latest ''sma_20'' < latest ''sma_50'' then t0 - 0.3
                       else t0)
                    else t0);
              t2 = (if ''adx'' \<in> set (columns df) then
                      (if latest ''adx'' > 25 then t1 * 1.5
                       else if latest ''adx'' < 20 then t1 * 0.5
                       else t1)
                    else t1)
          in max (min \<bar>t2\<bar> 1.0) 0.0)"

definition evaluate_momentum :: "dataframe \<Rightarrow> real" where
  "evaluate_momentum df =
     (case iloc_last df of
        None \<Rightarrow> 0.0
      | Some latest \<Rightarrow>
          let m0 = (0.0::real);
              m1 = (if ''rsi'' \<in> set (columns df) then
                      (if latest ''rsi'' > 70 then m0 - 0.3
                       else if latest ''rsi'' < 30 then m0 + 0.3
                       else m0)
                    else m0);
              m2 = (if list_all (\<lambda>x. x \<in> set (columns df)) [''macd_line'', ''macd_signal''] then
                      (if latest ''macd_line'' > latest ''macd_signal'' then m1 + 0.3
                       else m1 - 0.3)
                    else m1);
              m3 = (if ''stoch_k'' \<in> set (columns df) \<and> ''stoch_d'' \<in> set (columns df) then
                      (if latest ''stoch_k'' > latest ''stoch_d'' then m2 + 0.2
                       else m2 - 0.2)
                    else m2)
          in max (min \<bar>m3\<bar> 1.0) 0.0)"

text \<open>
  \<^verbatim>\<open>_evaluate_support_resistance\<close>.  The two proximities divide by the current price:
  Python raises ZeroDivisionError at price 0, and the handler returns 0.0.
\<close>

definition evaluate_support_resistance_body ::
  "real \<Rightarrow> (string \<rightharpoonup> real list) \<Rightarrow> real option" where
  "evaluate_support_resistance_body current_price support_resistance =
     (let score = (0.0::real);
          support_levels = dict_get support_resistance ''support'';
          resistance_levels = dict_get support_resistance ''resistance''
      in if support_levels = [] \<and> resistance_levels = [] then Some 0.0
         else
           let nearest_support = max_default (filter (\<lambda>s. s < current_price) support_levels);
               nearest_resistance = min_default (filter (\<lambda>r. r > current_price) resistance_levels)
           in do {
             score1 \<leftarrow> (if truthy nearest_support then
                          (if current_price = 0 then None
                           else let support_proximity =
                                      (current_price - the nearest_support) / current_price
                                in Some (if support_proximity < 0.01 then score + 0.5
                                         else if support_proximity < 0.02 then score + 0.3
                                         else score))
                        else Some score);
             score2 \<leftarrow> (if truthy nearest_resistance then
                          (if current_price = 0 then None
                           else let resistance_proximity =
                                      (the nearest_resistance - current_price) / current_price
                                in Some (if resistance_proximity < 0.01 then score1 - 0.5
                                         else if resistance_proximity < 0.02 then score1 - 0.3
                                         else score1))
                        else Some score1);
             Some (max (min \<bar>score2\<bar> 1.0) 0.0)
           })"

definition evaluate_support_resistance :: "real \<Rightarrow> (string \<rightharpoonup> real list) \<Rightarrow> real" where
  "evaluate_support_resistance current_price support_resistance =
     (case evaluate_support_resistance_body current_price support_resistance of
        None \<Rightarrow> 0.0 | Some v \<Rightarrow> v)"

text \<open>
  \<^verbatim>\<open>_calculate_overall_score\<close>: the metrics dictionary in insertion order, the weights
  looked up by key (KeyError on a metric without a weight, caught, 0.0), Python's
  \<^verbatim>\<open>sum\<close> adding from 0 in that order.
\<close>

definition weights :: "string \<rightharpoonup> real" where
  "weights = [''ai_score'' \<mapsto> 0.4, ''trend_score'' \<mapsto> 0.25,
              ''momentum_score'' \<mapsto> 0.2, ''support_resistance_score'' \<mapsto> 0.15]"

fun weighted_sum :: "real \<Rightarrow> (string \<times> real) list \<Rightarrow> real option" where
  "weighted_sum acc [] = Some acc"
| "weighted_sum acc ((metric, score) # ms) =
     (case weights metric of
        None \<Rightarrow> None
      | Some w \<Rightarrow> weighted_sum (acc + score * w) ms)"

definition calculate_overall_score :: "(string \<times> real) list \<Rightarrow> real" where
  "calculate_overall_score metrics =
     (case weighted_sum 0 metrics of
        None \<Rightarrow> 0.0
      | Some overall_score \<Rightarrow> max (min overall_score 1.0) 0.0)"

definition determine_signal_type :: "real \<Rightarrow> signal_type" where
  "determine_signal_type overall_score =
     (if overall_score < min_confidence then NEUTRAL
      else if overall_score > 0.8 then (if overall_score > 0 then STRONG_BUY else STRONG_SELL)
      else (if overall_score > 0 then BUY else SELL))"

text \<open>
  The dictionary of levels returned by \<^verbatim>\<open>_calculate_trade_levels\<close>.  An empty frame makes
  \<^verbatim>\<open>technical_data.iloc[-1]\<close> raise, and the handler returns the entry alone.
\<close>

record levels =
  entry :: real
  lv_stop_loss :: "real option"
  lv_take_profit :: "real option"
  lv_risk_reward_ratio :: real

definition calculate_trade_levels ::
  "signal_type \<Rightarrow> real \<Rightarrow> dataframe \<Rightarrow> (string \<rightharpoonup> real list) \<Rightarrow> levels" where
  "calculate_trade_levels st current_price technical_data support_resistance =
     (case iloc_last technical_data of
        None \<Rightarrow> \<lparr>entry = current_price, lv_stop_loss = None, lv_take_profit = None,
                 lv_risk_reward_ratio = risk_reward_ratio_cfg\<rparr>
      | Some latest \<Rightarrow>
          let atr = row_get technical_data latest ''atr'' (current_price * 0.001);
              entry0 = current_price;
              sl_tp =
                (if st \<in> set [BUY, STRONG_BUY] then
                   let nearby_support =
                         max_default (filter (\<lambda>s. s < current_price)
                                        (dict_get support_resistance ''support''));
                       stop_loss0 = (if truthy nearby_support then the nearby_support
                                     else current_price - 2 * atr);
                       take_profit0 =
                         current_price + (current_price - stop_loss0) * risk_reward_ratio_cfg
                   in (Some stop_loss0, Some take_profit0)
                 else if st \<in> set [SELL, STRONG_SELL] then
                   let nearby_resistance =
                         min_default (filter (\<lambda>r. r > current_price)
                                        (dict_get support_resistance ''resistance''));
                       stop_loss0 = (if truthy nearby_resistance then the nearby_resistance
                                     else current_price + 2 * atr);
                       take_profit0 =
                         current_price - (stop_loss0 - current_price) * risk_reward_ratio_cfg
                   in (Some stop_loss0, Some take_profit0)
                 else (None, None));
              risk = (if truthy (fst sl_tp) then \<bar>entry0 - the (fst sl_tp)\<bar> else atr);
              reward = (if truthy (snd sl_tp) then \<bar>entry0 - the (snd sl_tp)\<bar>
                        else risk * risk_reward_ratio_cfg)
          in \<lparr>entry = entry0, lv_stop_loss = fst sl_tp, lv_take_profit = snd sl_tp,
               lv_risk_reward_ratio =
                 (if risk > 0 then reward / risk else risk_reward_ratio_cfg)\<rparr>)"

text \<open>
  The signal record.  Of the metadata only the prediction handed in is kept: the technical
  summary and the market context are computed by two helpers that catch every exception
  themselves, so they decide neither the branch taken nor any other field.  The clock
  reading \<^verbatim>\<open>datetime.now().isoformat()\<close> is the parameter \<open>now\<close>.
\<close>

record signal_record =
  sig_timestamp :: string
  signal_type :: signal_type
  sig_confidence :: real
  entry_price :: "real option"
  stop_loss :: "real option"
  take_profit :: "real option"
  risk_reward_ratio :: "real option"
  metrics :: "(string \<times> real) list"
  metadata :: "ai_prediction option"

definition create_neutral_signal :: "string \<Rightarrow> signal_record" where
  "create_neutral_signal now =
     \<lparr>sig_timestamp = now, signal_type = NEUTRAL, sig_confidence = 0.0,
      entry_price = None, stop_loss = None, take_profit = None, risk_reward_ratio = None,
      metrics = [(''ai_score'', 0.0), (''trend_score'', 0.0), (''momentum_score'', 0.0),
                 (''support_resistance_score'', 0.0)],
      metadata = None\<rparr>"

definition signal_metrics ::
  "ai_prediction \<Rightarrow> dataframe \<Rightarrow> real \<Rightarrow> (string \<rightharpoonup> real list) \<Rightarrow> (string \<times> real) list" where
  "signal_metrics ai technical_data current_price support_resistance =
     [(''ai_score'', evaluate_ai_signal ai),
      (''trend_score'', evaluate_trend technical_data),
      (''momentum_score'', evaluate_momentum technical_data),
      (''support_resistance_score'',
         evaluate_support_resistance current_price support_resistance)]"

definition generate_signal ::
  "string \<Rightarrow> ai_prediction \<Rightarrow> dataframe \<Rightarrow> (string \<rightharpoonup> real) \<Rightarrow> (string \<rightharpoonup> real list)
     \<Rightarrow> signal_record" where
  "generate_signal now ai technical_data price_data support_resistance =
     (case price_data ''close'' of
        None \<Rightarrow> create_neutral_signal now
      | Some current_price \<Rightarrow>
          let sm = signal_metrics ai technical_data current_price support_resistance;
              overall_score = calculate_overall_score sm;
              st = determine_signal_type overall_score
          in if st = NEUTRAL then create_neutral_signal now
             else
               let lv = calculate_trade_levels st current_price technical_data
                          support_resistance
               in \<lparr>sig_timestamp = now, signal_type = st, sig_confidence = overall_score,
                    entry_price = Some (entry lv), stop_loss = lv_stop_loss lv,
                    take_profit = lv_take_profit lv,
                    risk_reward_ratio = Some (lv_risk_reward_ratio lv),
                    metrics = sm, metadata = Some ai\<rparr>)"

section \<open>ai\_model.py: AIModel\<close>

text \<open>
  The configuration gives the feature columns and the sequence length; both are parameters
  here.  \<^verbatim>\<open>series.iloc[j]\<close> on a column of values: a negative index counts from the
  end, an index outside the series raises IndexError.
\<close>

definition series_iloc :: "real list \<Rightarrow> int \<Rightarrow> error + real" where
  "series_iloc xs j =
     (if 0 \<le> j \<and> j < int (length xs) then Inr (xs ! nat j)
      else if - int (length xs) \<le> j \<and> j < 0 then Inr (xs ! nat (int (length xs) + j))
      else Inl IndexError)"

text \<open>\<^verbatim>\<open>df['close'].iloc[j]\<close>: KeyError when the frame has no such column.\<close>

definition close_iloc :: "dataframe \<Rightarrow> int \<Rightarrow> error + real" where
  "close_iloc df j =
     (if ''close'' \<in> set (columns df) then series_iloc (map (\<lambda>r. r ''close'') (rows df)) j
      else Inl KeyError)"

text \<open>
  \<^verbatim>\<open>MinMaxScaler().fit_transform\<close> of scikit-learn with its default range (0, 1).  The
  fit takes the minimum and the maximum of each column, \<^verbatim>\<open>scale_\<close> is the inverse of their
  difference (a difference of 0 is replaced by 1) and \<^verbatim>\<open>min_\<close> is \<^verbatim>\<open>0 - data_min * scale_\<close>;
  the transform is \<^verbatim>\<open>x * scale_ + min_\<close>.  Its input validation raises ValueError on a
  matrix with no row or with no column.
\<close>

definition column_at :: "real list list \<Rightarrow> nat \<Rightarrow> real list" where
  "column_at features j = map (\<lambda>row. row ! j) features"

definition data_min :: "real list \<Rightarrow> real" where
  "data_min col = fold min (tl col) (hd col)"

definition data_max :: "real list \<Rightarrow> real" where
  "data_max col = fold max (tl col) (hd col)"

definition scale_attr :: "real list \<Rightarrow> real" where
  "scale_attr col = (let data_range = data_max col - data_min col
                 in 1 / (if data_range = 0 then 1 else data_range))"

definition min_attr :: "real list \<Rightarrow> real" where
  "min_attr col = 0 - data_min col * scale_attr col"

definition fit_transform :: "nat \<Rightarrow> real list list \<Rightarrow> error + real list list" where
  "fit_transform n_features features =
     (if features = [] \<or> n_features = 0 then Inl ValueError
      else Inr (map (\<lambda>row. map (\<lambda>j. row ! j * scale_attr (column_at features j)
                                         + min_attr (column_at features j))
                              [0..<n_features])
                    features))"

text \<open>
  The products \<^verbatim>\<open>current_close * 1.001\<close> and \<^verbatim>\<open>current_close * 0.999\<close> are products of
  doubles (IEEE 754 binary64) in the default rounding mode: the exact product is rounded to
  the nearest number with a significand of 53 bits, a tie going to the even significand.
  \<open>binary_exponent x\<close> is the exponent \<open>e\<close> with \<open>2 powi e \<le> \<bar>x\<bar> < 2 powi (e + 1)\<close>, so that
  \<open>2 powi (e - 52)\<close> is the spacing of the doubles around \<open>x\<close>.  The exponent is not bounded
  here: overflow to infinity and the subnormal range below \<open>2 powi (- 1022)\<close> are left out.
\<close>

definition binary_exponent :: "real \<Rightarrow> int" where
  "binary_exponent x =
     (if 1 \<le> \<bar>x\<bar> then bitlen \<lfloor>\<bar>x\<bar>\<rfloor> - 1 else - bitlen (\<lceil>1 / \<bar>x\<bar>\<rceil> - 1))"

text \<open>Rounding to the nearest integer, a tie to the even one.\<close>

definition round_half_even :: "real \<Rightarrow> int" where
  "round_half_even q =
     (let f = \<lfloor>q\<rfloor>; d = q - of_int f
      in if d < 1 / 2 then f else if 1 / 2 < d then f + 1 else if even f then f else f + 1)"

definition round_double :: "real \<Rightarrow> real" where
  "round_double x =
     (if x = 0 then 0
      else let ulp = 2 powi (binary_exponent x - 52)
           in of_int (round_half_even (x / ulp)) * ulp)"

definition float_mul :: "real \<Rightarrow> real \<Rightarrow> real" where
  "float_mul a b = round_double (a * b)"

text \<open>
  The one-hot target, in the order buy, sell, hold.  The literals \<^verbatim>\<open>1.001\<close> and
  \<^verbatim>\<open>0.999\<close> of the source denote the doubles nearest to them.
\<close>

definition target :: "real \<Rightarrow> real \<Rightarrow> int list" where
  "target next_close current_close =
     (if next_close > float_mul current_close (round_double 1.001) then [1, 0, 0]
      else if next_close < float_mul current_close (round_double 0.999) then [0, 1, 0]
      else [0, 0, 1])"

text \<open>One pass of the loop of \<^verbatim>\<open>prepare_data\<close> at position \<open>i\<close>: the window and its target.\<close>

definition window_example ::
  "nat \<Rightarrow> dataframe \<Rightarrow> real list list \<Rightarrow> nat \<Rightarrow> error + (real list list \<times> int list)" where
  "window_example sequence_length df scaled_features i =
     (case close_iloc df (int i + int sequence_length) of
        Inl e \<Rightarrow> Inl e
      | Inr next_close \<Rightarrow>
          (case close_iloc df (int i + int sequence_length - 1) of
             Inl e \<Rightarrow> Inl e
           | Inr current_close \<Rightarrow>
               Inr (take sequence_length (drop i scaled_features),
                    target next_close current_close)))"

fun build_sequences ::
  "nat \<Rightarrow> dataframe \<Rightarrow> real list list \<Rightarrow> nat list
     \<Rightarrow> error + (real list list list \<times> int list list)" where
  "build_sequences sequence_length df scaled_features [] = Inr ([], [])"
| "build_sequences sequence_length df scaled_features (i # rest) =
     (case window_example sequence_length df scaled_features i of
        Inl e \<Rightarrow> Inl e
      | Inr (x, t) \<Rightarrow>
          (case build_sequences sequence_length df scaled_features rest of
             Inl e \<Rightarrow> Inl e
           | Inr (X, y) \<Rightarrow> Inr (x # X, t # y)))"

text \<open>
  \<^verbatim>\<open>prepare_data\<close>; its handler logs and re-raises.  \<^verbatim>\<open>range(len(scaled_features) -
  sequence_length)\<close> is empty when the difference is negative, as the truncated subtraction
  on \<^typ>\<open>nat\<close> makes \<open>[0..<n - sequence_length]\<close> empty.  The refit of \<^verbatim>\<open>self.scaler\<close> is a
  side effect that none of the results below reads, so the state is not threaded here.
\<close>

definition prepare_data ::
  "string list \<Rightarrow> nat \<Rightarrow> dataframe \<Rightarrow> error + (real list list list \<times> int list list)" where
  "prepare_data feature_columns sequence_length df =
     (if set feature_columns - set (columns df) \<noteq> {} then Inl ValueError
      else
        (case fit_transform (length feature_columns)
                (map (\<lambda>r. map r feature_columns) (rows df)) of
           Inl e \<Rightarrow> Inl e
         | Inr scaled_features \<Rightarrow>
             build_sequences sequence_length df scaled_features
               [0..<length scaled_features - sequence_length]))"

text \<open>
  The network behind \<^verbatim>\<open>self.model.predict(last_sequence, verbose=0)[0]\<close> is a parameter:
  from the batch holding the last window to the first row of class probabilities, or an
  exception.
\<close>

type_synonym network = "real list list list \<Rightarrow> error + real list"

text \<open>\<^verbatim>\<open>np.argmax\<close>: the first position of the maximum.\<close>

definition argmax :: "real list \<Rightarrow> nat" where
  "argmax p = length (takeWhile (\<lambda>v. v \<noteq> fold max (tl p) (hd p)) p)"

definition signals :: "string list" where
  "signals = [''BUY'', ''SELL'', ''HOLD'']"

definition predict_body ::
  "string list \<Rightarrow> nat \<Rightarrow> network \<Rightarrow> string \<Rightarrow> dataframe \<Rightarrow> error + ai_prediction" where
  "predict_body feature_columns sequence_length net now df =
     (case prepare_data feature_columns sequence_length df of
        Inl e \<Rightarrow> Inl e
      | Inr (X, _) \<Rightarrow>
          if length X = 0 then Inl ValueError
          else
            (case net [last X] of
               Inl e \<Rightarrow> Inl e
             | Inr prediction \<Rightarrow>
                 if prediction = [] then Inl ValueError
                 else
                   let signal_strength = fold max (tl prediction) (hd prediction);
                       signal_index = argmax prediction
                   in if \<not> signal_index < length signals then Inl IndexError
                      else if length prediction < 3 then Inl IndexError
                      else Inr \<lparr>signal = signals ! signal_index,
                                confidence = Some signal_strength,
                                probabilities = Some [''buy'' \<mapsto> prediction ! 0,
                                  ''sell'' \<mapsto> prediction ! 1, ''hold'' \<mapsto> prediction ! 2],
                                timestamp = now\<rparr>))"

definition safe_neutral :: "string \<Rightarrow> ai_prediction" where
  "safe_neutral now =
     \<lparr>signal = ''HOLD'', confidence = Some 0.0,
      probabilities = Some [''buy'' \<mapsto> 0.0, ''sell'' \<mapsto> 0.0, ''hold'' \<mapsto> 1.0],
      timestamp = now\<rparr>"

text \<open>\<^verbatim>\<open>predict\<close>: the handler of its \<^verbatim>\<open>try\<close> catches every \<^verbatim>\<open>Exception\<close> and returns
  the fallback record.\<close>

definition predict ::
  "string list \<Rightarrow> nat \<Rightarrow> network \<Rightarrow> string \<Rightarrow> dataframe \<Rightarrow> ai_prediction" where
  "predict feature_columns sequence_length net now df =
     (case predict_body feature_columns sequence_length net now df of
        Inl e \<Rightarrow> safe_neutral now
      | Inr r \<Rightarrow> r)"

text \<open>
  The state that \<^verbatim>\<open>load_specific_version\<close> writes: the network, the \<^verbatim>\<open>scale_\<close> attribute of
  the scaler and the version counter.  The model directory holds, for each version, a model
  file and a scaler file; a file is absent, present but not loadable, or loadable.
\<close>

record ('m, 's) model_state =
  model :: 'm
  scaler_scale :: 's
  model_version :: int

datatype 'a stored_file = Absent | Unreadable | Readable 'a

record ('m, 's) model_dir =
  model_file :: "int \<Rightarrow> 'm stored_file"
  scaler_file :: "int \<Rightarrow> 's stored_file"

text \<open>
  The function returns nothing and mutates the object, so the model returns the state it
  leaves behind together with the exception, if any.  \<^verbatim>\<open>os.path.exists\<close> guards the model
  file only; the three assignments follow one another.
\<close>

definition load_specific_version ::
  "('m, 's) model_state \<Rightarrow> ('m, 's) model_dir \<Rightarrow> int
     \<Rightarrow> ('m, 's) model_state \<times> (error + unit)" where
  "load_specific_version st dir version =
     (case model_file dir version of
        Absent \<Rightarrow> (st, Inl FileNotFoundError)
      | Unreadable \<Rightarrow> (st, Inl LoadError)
      | Readable m \<Rightarrow>
          let st1 = st\<lparr>model := m\<rparr>
          in (case scaler_file dir version of
                Absent \<Rightarrow> (st1, Inl FileNotFoundError)
              | Unreadable \<Rightarrow> (st1, Inl LoadError)
              | Readable s \<Rightarrow> (st1\<lparr>scaler_scale := s, model_version := version\<rparr>, Inr ())))"

section \<open>indicators.py: TechnicalIndicators.detect\_support\_resistance\<close>

text \<open>
  \<^verbatim>\<open>series.rolling(window=window, center=True).max()\<close> of pandas at position \<open>i\<close>: the
  window of \<open>window\<close> values ends (exclusively) at \<open>i + 1 + (window - 1) // 2\<close>; where it
  does not lie inside the series fewer than \<open>min_periods = window\<close> values are seen and the
  result is NaN, here \<open>None\<close>, which compares unequal to every value.  A window of
  length 0 gives NaN everywhere.
\<close>

definition rolling_center ::
  "(real \<Rightarrow> real \<Rightarrow> real) \<Rightarrow> nat \<Rightarrow> real list \<Rightarrow> nat \<Rightarrow> real option" where
  "rolling_center agg window xs i =
     (let offset = (window - 1) div 2;
          stop = i + 1 + offset
      in if window = 0 \<or> stop < window \<or> length xs < stop then None
         else let w = take window (drop (stop - window) xs)
              in Some (fold agg (tl w) (hd w)))"

text \<open>The inner loop: the bars \<open>j\<close> of \<^verbatim>\<open>range(lo, hi)\<close> within 0.2% of the level.\<close>

definition count_touches :: "real list \<Rightarrow> real \<Rightarrow> nat \<Rightarrow> nat \<Rightarrow> int" where
  "count_touches xs level lo hi =
     int (length (filter (\<lambda>j. \<bar>xs ! j - level\<bar> \<le> level * 0.002) [lo..<hi]))"

text \<open>One pass of the outer loop: the levels appended at position \<open>i\<close>, the high first.\<close>

definition levels_at :: "nat \<Rightarrow> int \<Rightarrow> real list \<Rightarrow> real list \<Rightarrow> nat \<Rightarrow> real list" where
  "levels_at window num_touches high low i =
     (let lo = max 0 (i - window);
          hi = min (length high) (i + window)
      in (if rolling_center max window high i = Some (high ! i)
             \<and> count_touches high (high ! i) lo hi \<ge> num_touches
          then [high ! i] else [])
         @ (if rolling_center min window low i = Some (low ! i)
               \<and> count_touches low (low ! i) lo hi \<ge> num_touches
            then [low ! i] else []))"

text \<open>
  The levels after \<^verbatim>\<open>sorted(list(set(levels)))\<close>.  The outer loop is
  \<^verbatim>\<open>range(window, len(df) - window)\<close>, empty when the frame has fewer than
  \<open>2 * window\<close> rows, as \<open>[window..<n - window]\<close> is on \<^typ>\<open>nat\<close>.
\<close>

definition confirmed_levels :: "dataframe \<Rightarrow> nat \<Rightarrow> int \<Rightarrow> real list" where
  "confirmed_levels df window num_touches =
     (let high = map (\<lambda>r. r ''high'') (rows df);
          low = map (\<lambda>r. r ''low'') (rows df)
      in sort (remdups (concat (map (levels_at window num_touches high low)
                                  [window..<length (rows df) - window]))))"

text \<open>
  The body of the \<^verbatim>\<open>try\<close>: a missing column raises KeyError, a negative window makes
  \<^verbatim>\<open>rolling\<close> raise ValueError, an empty frame makes \<^verbatim>\<open>df['close'].iloc[-1]\<close> raise
  IndexError.  The handler returns two empty lists.
\<close>

definition detect_support_resistance_body ::
  "dataframe \<Rightarrow> int \<Rightarrow> int \<Rightarrow> (string \<rightharpoonup> real list) option" where
  "detect_support_resistance_body df window num_touches =
     (if ''high'' \<notin> set (columns df) \<or> ''low'' \<notin> set (columns df) \<or> window < 0 then None
      else
        let lv = confirmed_levels df (nat window) num_touches
        in (case close_iloc df (- 1) of
              Inl e \<Rightarrow> None
            | Inr current_price \<Rightarrow>
                Some [''support'' \<mapsto> filter (\<lambda>level. level < current_price) lv,
                      ''resistance'' \<mapsto> filter (\<lambda>level. level > current_price) lv]))"

definition detect_support_resistance ::
  "dataframe \<Rightarrow> int \<Rightarrow> int \<Rightarrow> (string \<rightharpoonup> real list)" where
  "detect_support_resistance df window num_touches =
     (case detect_support_resistance_body df window num_touches of
        None \<Rightarrow> [''support'' \<mapsto> [], ''resistance'' \<mapsto> []]
      | Some r \<Rightarrow> r)"

section \<open>Concrete inputs\<close>

text \<open>A one-row frame without indicator columns, and the prediction of the hold scenario.\<close>

definition flat_frame :: dataframe where
  "flat_frame = \<lparr>columns = [''close'', ''atr''], rows = [\<lambda>c. if c = ''close'' then 100 else 1]\<rparr>"

definition hold_prediction :: ai_prediction where
  "hold_prediction = \<lparr>signal = ''HOLD'', confidence = Some 0.9,
     probabilities = Some [''buy'' \<mapsto> 0.05, ''sell'' \<mapsto> 0.05, ''hold'' \<mapsto> 0.9],
     timestamp = ''t0''\<rparr>"

text \<open>A frame with every indicator bullish, a decisive BUY prediction, and a level set whose
  only support is the price 0.\<close>

definition trending_frame :: dataframe where
  "trending_frame =
     \<lparr>columns = [''sma_20'', ''sma_50'', ''adx'', ''rsi'', ''macd_line'', ''macd_signal'',
                 ''stoch_k'', ''stoch_d'', ''atr''],
      rows = [\<lambda>c. if c = ''sma_20'' then 2 else if c = ''sma_50'' then 1
                  else if c = ''adx'' then 30 else if c = ''rsi'' then 20
                  else if c = ''macd_line'' then 1 else if c = ''stoch_k'' then 1
                  else if c = ''atr'' then 0.1 else 0]\<rparr>"

definition buy_prediction :: ai_prediction where
  "buy_prediction = \<lparr>signal = ''BUY'', confidence = Some 0.9,
     probabilities = Some [''buy'' \<mapsto> 0.9, ''sell'' \<mapsto> 0.05, ''hold'' \<mapsto> 0.05],
     timestamp = ''t0''\<rparr>"

definition zero_support_levels :: "string \<rightharpoonup> real list" where
  "zero_support_levels = [''support'' \<mapsto> [0], ''resistance'' \<mapsto> [1.005]]"


text \<open>The scaled feature matrix of a frame, when the scaler accepts it.\<close>

definition the_scaled :: "string list \<Rightarrow> dataframe \<Rightarrow> real list list" where
  "the_scaled feature_columns df =
     (case fit_transform (length feature_columns)
             (map (\<lambda>r. map r feature_columns) (rows df)) of
        Inl e \<Rightarrow> []
      | Inr scaled_features \<Rightarrow> scaled_features)"

text \<open>Frames with the single column \<open>close\<close>: two negative closes, no row, two rows, four rows.\<close>

definition negative_frame :: dataframe where
  "negative_frame = \<lparr>columns = [''close''], rows = [\<lambda>c. - 1000, \<lambda>c. - 1000]\<rparr>"

definition empty_frame :: dataframe where
  "empty_frame = \<lparr>columns = [''close''], rows = []\<rparr>"

definition short_frame :: dataframe where
  "short_frame = \<lparr>columns = [''close''], rows = [\<lambda>c. 100, \<lambda>c. 101]\<rparr>"

definition rising_frame :: dataframe where
  "rising_frame = \<lparr>columns = [''close''],
     rows = [\<lambda>c. 100, \<lambda>c. 101, \<lambda>c. 100, \<lambda>c. 100]\<rparr>"


text \<open>A model directory in which version 1 has a model file and no scaler file.\<close>

definition half_saved_dir :: "(nat, nat) model_dir" where
  "half_saved_dir =
     \<lparr>model_file = (\<lambda>v. if v = 1 then Readable 11 else Absent),
      scaler_file = (\<lambda>v. Absent)\<rparr>"

definition active_state :: "(nat, nat) model_state" where
  "active_state = \<lparr>model = 7, scaler_scale = 3, model_version = 0\<rparr>"

text \<open>A network that answers every batch with the same three probabilities.\<close>

definition constant_net :: network where
  "constant_net batch = Inr [0.2, 0.7, 0.1]"

text \<open>
  Four candles.  With a window of 1 and one touch required the two inner candles give the
  levels 12, 10, 13 and 12 again; the latest close is 12.
\<close>

definition candle_frame :: dataframe where
  "candle_frame =
     \<lparr>columns = [''high'', ''low'', ''close''],
      rows = [\<lambda>c. if c = ''high'' then 11 else if c = ''low'' then 9 else 10,
              \<lambda>c. if c = ''high'' then 12 else if c = ''low'' then 10 else 11,
              \<lambda>c. if c = ''high'' then 13 else if c = ''low'' then 12 else 12.5,
              \<lambda>c. if c = ''high'' then 14 else if c = ''low'' then 11 else 12]\<rparr>"

section \<open>Verified properties\<close>

subsection \<open>The fusion engine\<close>

lemma weighted_sum_four:
  "weighted_sum 0 [(''ai_score'', a), (''trend_score'', t), (''momentum_score'', m),
      (''support_resistance_score'', s)] = Some (a * 0.4 + t * 0.25 + m * 0.2 + s * 0.15)"
  by (simp add: weights_def)

lemma calculate_overall_score_four:
  "calculate_overall_score [(''ai_score'', a), (''trend_score'', t), (''momentum_score'', m),
      (''support_resistance_score'', s)] = max (min (a * 0.4 + t * 0.25 + m * 0.2 + s * 0.15) 1) 0"
  unfolding calculate_overall_score_def weighted_sum_four by simp

lemma determine_signal_type_cases:
  "determine_signal_type s = (if s < 0.7 then NEUTRAL else if s > 0.8 then STRONG_BUY else BUY)"
  by (simp add: determine_signal_type_def min_confidence_def)

lemma calculate_trade_levels_entry:
  "entry (calculate_trade_levels st cp td sr) = cp"
  by (simp add: calculate_trade_levels_def Let_def split: option.splits)

text \<open>
  Claim C1.  For every real score the signal-type decision returns NEUTRAL, BUY or
  STRONG\_BUY: the sell branches test \<open>overall_score > 0\<close> behind the 0.7 gate and are dead.
  Hence no signal emitted by \<open>generate_signal\<close> is sell-side.
\<close>

theorem determine_signal_type_never_sell:
  "(determine_signal_type overall_score = NEUTRAL \<or> determine_signal_type overall_score = BUY
      \<or> determine_signal_type overall_score = STRONG_BUY)
   \<and> (signal_type (generate_signal now ai td pd sr) = NEUTRAL
      \<or> signal_type (generate_signal now ai td pd sr) = BUY
      \<or> signal_type (generate_signal now ai td pd sr) = STRONG_BUY)"
proof
  show "determine_signal_type overall_score = NEUTRAL \<or> determine_signal_type overall_score = BUY
      \<or> determine_signal_type overall_score = STRONG_BUY"
    by (simp add: determine_signal_type_cases)
next
  show "signal_type (generate_signal now ai td pd sr) = NEUTRAL
      \<or> signal_type (generate_signal now ai td pd sr) = BUY
      \<or> signal_type (generate_signal now ai td pd sr) = STRONG_BUY"
  proof (cases "pd ''close''")
    case None
    then show ?thesis by (simp add: generate_signal_def create_neutral_signal_def)
  next
    case (Some cp)
    then show ?thesis
      by (simp add: generate_signal_def create_neutral_signal_def Let_def
            determine_signal_type_cases)
  qed
qed

text \<open>
  Claim C2.  The classification is NEUTRAL exactly when the score is below 0.7; the score
  0.7 itself is not NEUTRAL, 0.699999 is.  A NEUTRAL classification makes
  \<open>generate_signal\<close> return the neutral record, whose trade levels are all absent; any other
  classification returns a record with an entry price.
\<close>

theorem neutral_iff_below_min_confidence:
  "(determine_signal_type s = NEUTRAL \<longleftrightarrow> s < 0.7)
   \<and> determine_signal_type 0.7 \<noteq> NEUTRAL
   \<and> determine_signal_type 0.699999 = NEUTRAL
   \<and> (pd ''close'' = Some cp \<longrightarrow>
        calculate_overall_score (signal_metrics ai td cp sr) < 0.7 \<longrightarrow>
          generate_signal now ai td pd sr = create_neutral_signal now
          \<and> entry_price (generate_signal now ai td pd sr) = None
          \<and> stop_loss (generate_signal now ai td pd sr) = None
          \<and> take_profit (generate_signal now ai td pd sr) = None)
   \<and> (pd ''close'' = Some cp \<longrightarrow>
        \<not> calculate_overall_score (signal_metrics ai td cp sr) < 0.7 \<longrightarrow>
          signal_type (generate_signal now ai td pd sr) \<noteq> NEUTRAL
          \<and> entry_price (generate_signal now ai td pd sr) = Some cp)"
  by (simp add: determine_signal_type_cases generate_signal_def Let_def
        create_neutral_signal_def calculate_trade_levels_entry)

theorem neutral_iff_below_min_confidence_witness:
  "determine_signal_type 0.5 = NEUTRAL
   \<and> calculate_overall_score (signal_metrics hold_prediction flat_frame 100
        [''support'' \<mapsto> [99.5]]) < 0.7
   \<and> generate_signal ''t2'' hold_prediction flat_frame [''close'' \<mapsto> 100]
        [''support'' \<mapsto> [99.5]] = create_neutral_signal ''t2''
   \<and> stop_loss (generate_signal ''t2'' hold_prediction flat_frame [''close'' \<mapsto> 100]
        [''support'' \<mapsto> [99.5]]) = None"
proof -
  have 1: "[''close'' \<mapsto> (100::real)] ''close'' = Some 100" by simp
  have a: "evaluate_ai_signal hold_prediction = 0.9"
    by (simp add: evaluate_ai_signal_def evaluate_ai_signal_body_def hold_prediction_def)
  have t: "evaluate_trend flat_frame = 0"
    by (simp add: evaluate_trend_def flat_frame_def iloc_last_def)
  have m: "evaluate_momentum flat_frame = 0"
    by (simp add: evaluate_momentum_def flat_frame_def iloc_last_def)
  have r: "evaluate_support_resistance 100 [''support'' \<mapsto> [99.5]] = 0.5"
    by (simp add: evaluate_support_resistance_def evaluate_support_resistance_body_def
          dict_get_def max_default_def min_default_def truthy_def Let_def)
  have 2: "calculate_overall_score (signal_metrics hold_prediction flat_frame 100
        [''support'' \<mapsto> [99.5]]) < 0.7"
    unfolding signal_metrics_def calculate_overall_score_four a t m r by simp
  show ?thesis
    using neutral_iff_below_min_confidence [of "0.5" "[''close'' \<mapsto> 100]" 100 hold_prediction
        flat_frame "[''support'' \<mapsto> [99.5]]" "''t2''"] 1 2
    by (simp add: create_neutral_signal_def)
qed

text \<open>
  Claim C9.  With the trend, momentum and support/resistance scores fixed, the fused score
  does not decrease when the AI score grows.
\<close>

theorem overall_score_monotone_in_ai_score:
  "ai_score \<le> ai_score' \<Longrightarrow>
     calculate_overall_score [(''ai_score'', ai_score), (''trend_score'', trend_score),
        (''momentum_score'', momentum_score), (''support_resistance_score'', sr_score)]
     \<le> calculate_overall_score [(''ai_score'', ai_score'), (''trend_score'', trend_score),
        (''momentum_score'', momentum_score), (''support_resistance_score'', sr_score)]"
  unfolding calculate_overall_score_four by (simp add: max_def min_def)

theorem overall_score_monotone_in_ai_score_witness:
  "calculate_overall_score [(''ai_score'', 0.5), (''trend_score'', 0.45),
        (''momentum_score'', 0.8), (''support_resistance_score'', 0.5)]
     \<le> calculate_overall_score [(''ai_score'', 1), (''trend_score'', 0.45),
        (''momentum_score'', 0.8), (''support_resistance_score'', 0.5)]"
proof -
  have h: "(0.5::real) \<le> 1" by simp
  show ?thesis using overall_score_monotone_in_ai_score [OF h] by simp
qed

text \<open>
  Claim C10.  A HOLD prediction of confidence 0.9 with buy and sell probabilities 0.05 gets
  no boost, so with the three other scores at 0 the fused score is 0.36 and the cycle is
  NEUTRAL.
\<close>

theorem hold_prediction_flat_evidence_neutral:
  assumes "confidence ai = Some 0.9"
    and "probabilities ai = Some [''buy'' \<mapsto> 0.05, ''sell'' \<mapsto> 0.05, ''hold'' \<mapsto> 0.9]"
    and "price_data ''close'' = Some current_price"
    and "evaluate_trend technical_data = 0"
    and "evaluate_momentum technical_data = 0"
    and "evaluate_support_resistance current_price support_resistance = 0"
  shows "evaluate_ai_signal ai = 0.9
     \<and> calculate_overall_score
          (signal_metrics ai technical_data current_price support_resistance) = 0.36
     \<and> generate_signal now ai technical_data price_data support_resistance
          = create_neutral_signal now"
proof -
  have a: "evaluate_ai_signal ai = 0.9"
    using assms(1,2) by (simp add: evaluate_ai_signal_def evaluate_ai_signal_body_def)
  have s: "calculate_overall_score
          (signal_metrics ai technical_data current_price support_resistance) = 0.36"
    using assms(4,5,6) a by (simp add: signal_metrics_def calculate_overall_score_four)
  have "generate_signal now ai technical_data price_data support_resistance
          = create_neutral_signal now"
    using assms(3) s by (simp add: generate_signal_def Let_def determine_signal_type_cases)
  with a s show ?thesis by simp
qed

theorem hold_prediction_flat_evidence_neutral_witness:
  "generate_signal ''t1'' hold_prediction flat_frame [''close'' \<mapsto> 100] Map.empty
     = create_neutral_signal ''t1''"
proof -
  have 1: "confidence hold_prediction = Some 0.9" by (simp add: hold_prediction_def)
  have 2: "probabilities hold_prediction
      = Some [''buy'' \<mapsto> 0.05, ''sell'' \<mapsto> 0.05, ''hold'' \<mapsto> 0.9]"
    by (simp add: hold_prediction_def)
  have 3: "[''close'' \<mapsto> (100::real)] ''close'' = Some 100" by simp
  have 4: "evaluate_trend flat_frame = 0"
    by (simp add: evaluate_trend_def flat_frame_def iloc_last_def)
  have 5: "evaluate_momentum flat_frame = 0"
    by (simp add: evaluate_momentum_def flat_frame_def iloc_last_def)
  have 6: "evaluate_support_resistance 100 Map.empty = 0"
    by (simp add: evaluate_support_resistance_def evaluate_support_resistance_body_def
          dict_get_def)
  show ?thesis
    using hold_prediction_flat_evidence_neutral [of hold_prediction "[''close'' \<mapsto> 100]" 100
        flat_frame Map.empty "''t1''"] 1 2 3 4 5 6
    by simp
qed

subsection \<open>Trade levels\<close>



lemma tf_trend: "evaluate_trend trending_frame = 0.45"
  by (simp add: evaluate_trend_def trending_frame_def iloc_last_def)

lemma tf_mom: "evaluate_momentum trending_frame = 0.8"
  by (simp add: evaluate_momentum_def trending_frame_def iloc_last_def)

lemma bp_ai: "evaluate_ai_signal buy_prediction = 1"
  by (simp add: evaluate_ai_signal_def evaluate_ai_signal_body_def buy_prediction_def)

lemma zs_sr: "evaluate_support_resistance 1 zero_support_levels = 0.5"
  by (simp add: evaluate_support_resistance_def evaluate_support_resistance_body_def
        zero_support_levels_def dict_get_def max_default_def min_default_def truthy_def Let_def)

lemma zs_score: "calculate_overall_score (signal_metrics buy_prediction trending_frame 1 zero_support_levels) = 0.7475"
  unfolding signal_metrics_def calculate_overall_score_four tf_trend tf_mom bp_ai zs_sr by simp

lemma zs_levels: "calculate_trade_levels BUY 1 trending_frame zero_support_levels
   = \<lparr>entry = 1, lv_stop_loss = Some 0.8, lv_take_profit = Some 1.4, lv_risk_reward_ratio = 2\<rparr>"
  by (simp add: calculate_trade_levels_def trending_frame_def iloc_last_def row_get_def
        zero_support_levels_def dict_get_def max_default_def truthy_def Let_def
        risk_reward_ratio_cfg_def)











text \<open>
  The hypothesis on the levels excludes one value only.  The truth test \<^verbatim>\<open>if nearby_support\<close>
  is false for the level 0.0 as for \<^verbatim>\<open>None\<close>: with the single support 0 below the price 1
  and an ATR of 0.1 the emitted BUY signal carries the stop-loss 0.8 and the take-profit 1.4.
  The detector confirms a level 0.0 only from candle lows of exactly 0.0, which quoted prices
  do not give.
\<close>

lemma support_at_zero_is_skipped:
  "max_default (filter (\<lambda>s. s < 1) (dict_get zero_support_levels ''support'')) = Some 0
   \<and> signal_type (generate_signal ''t3'' buy_prediction trending_frame [''close'' \<mapsto> 1]
        zero_support_levels) = BUY
   \<and> entry_price (generate_signal ''t3'' buy_prediction trending_frame [''close'' \<mapsto> 1]
        zero_support_levels) = Some 1
   \<and> stop_loss (generate_signal ''t3'' buy_prediction trending_frame [''close'' \<mapsto> 1]
        zero_support_levels) = Some 0.8
   \<and> take_profit (generate_signal ''t3'' buy_prediction trending_frame [''close'' \<mapsto> 1]
        zero_support_levels) = Some 1.4"
proof -
  have 1: "max_default (filter (\<lambda>s. s < 1) (dict_get zero_support_levels ''support'')) = Some 0"
    by (simp add: zero_support_levels_def dict_get_def max_default_def)
  have 2: "determine_signal_type 0.7475 = BUY"
    by (simp add: determine_signal_type_cases)
  have g: "generate_signal ''t3'' buy_prediction trending_frame [''close'' \<mapsto> 1]
        zero_support_levels =
      \<lparr>sig_timestamp = ''t3'', signal_type = BUY, sig_confidence = 0.7475,
       entry_price = Some 1, stop_loss = Some 0.8, take_profit = Some 1.4,
       risk_reward_ratio = Some 2,
       metrics = signal_metrics buy_prediction trending_frame 1 zero_support_levels,
       metadata = Some buy_prediction\<rparr>"
    unfolding generate_signal_def
    by (simp add: zs_score determine_signal_type_cases zs_levels Let_def)
  show ?thesis unfolding g using 1 by simp
qed

subsection \<open>Rounding to double precision\<close>

text \<open>
  The exponent brackets its argument, so the rounding is to a nearest number of 53 significant
  bits, it is monotone, and it is computed from any exponent that brackets the argument.
\<close>

lemma bitlen_pos: "0 < m \<Longrightarrow> 1 \<le> bitlen m"
  using bitlen_eq_zero_iff [of m] bitlen_nonneg [of m] by linarith

lemma binary_exponent_lower:
  assumes "x \<noteq> 0"
  shows "2 powi binary_exponent x \<le> \<bar>x\<bar>"
proof (cases "1 \<le> \<bar>x\<bar>")
  case True
  define m where "m = \<lfloor>\<bar>x\<bar>\<rfloor>"
  have m: "0 < m" using True by (simp add: m_def)
  have e: "binary_exponent x = bitlen m - 1" using True by (simp add: binary_exponent_def m_def)
  have k: "1 \<le> bitlen m" using m by (rule bitlen_pos)
  have "(2::real) powi (bitlen m - 1) = of_int (2 ^ nat (bitlen m - 1))"
    using k by (simp add: power_int_def)
  also have "\<dots> \<le> of_int m" using bitlen_bounds [OF m] by (simp only: of_int_le_iff)
  also have "\<dots> \<le> \<bar>x\<bar>" by (simp add: m_def)
  finally show ?thesis by (simp add: e)
next
  case False
  define q where "q = 1 / \<bar>x\<bar>"
  have x: "0 < \<bar>x\<bar>" using assms by simp
  have q: "1 < q" using False x by (simp add: q_def)
  define n where "n = \<lceil>q\<rceil> - 1"
  have n: "0 < n" using q by (simp add: n_def less_ceiling_iff)
  have e: "binary_exponent x = - bitlen n"
    using False by (simp add: binary_exponent_def n_def q_def)
  have "n + 1 \<le> 2 ^ nat (bitlen n)" using bitlen_bounds [OF n] by simp
  hence "(of_int (n + 1) :: real) \<le> of_int (2 ^ nat (bitlen n))" by (simp only: of_int_le_iff)
  moreover have "q \<le> of_int (n + 1)" by (simp add: n_def)
  ultimately have "q \<le> 2 ^ nat (bitlen n)" by simp
  hence "1 \<le> \<bar>x\<bar> * 2 ^ nat (bitlen n)" using x by (simp add: q_def field_simps)
  hence "1 / 2 ^ nat (bitlen n) \<le> \<bar>x\<bar>" by (simp add: field_simps)
  moreover have "(2::real) powi (- bitlen n) = 1 / 2 ^ nat (bitlen n)"
    using bitlen_pos [OF n] by (simp add: power_int_def field_simps)
  ultimately show ?thesis by (simp add: e)
qed

lemma binary_exponent_upper:
  assumes "x \<noteq> 0"
  shows "\<bar>x\<bar> < 2 powi (binary_exponent x + 1)"
proof (cases "1 \<le> \<bar>x\<bar>")
  case True
  define m where "m = \<lfloor>\<bar>x\<bar>\<rfloor>"
  have m: "0 < m" using True by (simp add: m_def)
  have e: "binary_exponent x = bitlen m - 1" using True by (simp add: binary_exponent_def m_def)
  have "m + 1 \<le> 2 ^ nat (bitlen m)" using bitlen_bounds [OF m] by simp
  hence "(of_int (m + 1) :: real) \<le> of_int (2 ^ nat (bitlen m))" by (simp only: of_int_le_iff)
  moreover have "\<bar>x\<bar> < of_int (m + 1)" by (simp add: m_def)
  ultimately have "\<bar>x\<bar> < 2 ^ nat (bitlen m)" by simp
  moreover have "(2::real) powi (bitlen m) = 2 ^ nat (bitlen m)"
    using bitlen_nonneg [of m] by (simp add: power_int_def)
  ultimately show ?thesis by (simp add: e)
next
  case False
  define q where "q = 1 / \<bar>x\<bar>"
  have x: "0 < \<bar>x\<bar>" using assms by simp
  have q: "1 < q" using False x by (simp add: q_def)
  define n where "n = \<lceil>q\<rceil> - 1"
  have n: "0 < n" using q by (simp add: n_def less_ceiling_iff)
  have e: "binary_exponent x = - bitlen n"
    using False by (simp add: binary_exponent_def n_def q_def)
  have k: "1 \<le> bitlen n" using n by (rule bitlen_pos)
  have "(2::int) ^ nat (bitlen n - 1) \<le> n" using bitlen_bounds [OF n] by simp
  hence "(of_int ((2::int) ^ nat (bitlen n - 1)) :: real) \<le> of_int n"
    by (rule iffD2 [OF of_int_le_iff])
  hence "(2::real) ^ nat (bitlen n - 1) \<le> of_int n" by simp
  moreover have "of_int n < q" using ceiling_correct [of q] by (simp add: n_def)
  ultimately have "2 ^ nat (bitlen n - 1) < q" by linarith
  hence "\<bar>x\<bar> * 2 ^ nat (bitlen n - 1) < 1" using x by (simp add: q_def field_simps)
  hence "\<bar>x\<bar> < 1 / 2 ^ nat (bitlen n - 1)" by (simp add: field_simps)
  moreover have "(2::real) powi (- bitlen n + 1) = 1 / 2 ^ nat (bitlen n - 1)"
    using k by (simp add: power_int_def field_simps)
  ultimately show ?thesis by (simp add: e)
qed

lemma binary_exponent_unique:
  assumes "2 powi e \<le> \<bar>x\<bar>" and "\<bar>x\<bar> < 2 powi (e + 1)"
  shows "binary_exponent x = e"
proof -
  have "0 < (2::real) powi e" by simp
  with assms(1) have "0 < \<bar>x\<bar>" by linarith
  hence x: "x \<noteq> 0" by simp
  have "(2::real) powi e < 2 powi (binary_exponent x + 1)"
    using assms(1) binary_exponent_upper [OF x] by linarith
  hence 1: "e < binary_exponent x + 1"
    using power_int_increasing [of "binary_exponent x + 1" e "2::real"] by (cases "e < binary_exponent x + 1") auto
  have "(2::real) powi binary_exponent x < 2 powi (e + 1)"
    using assms(2) binary_exponent_lower [OF x] by linarith
  hence 2: "binary_exponent x < e + 1"
    using power_int_increasing [of "e + 1" "binary_exponent x" "2::real"] by (cases "binary_exponent x < e + 1") auto
  from 1 2 show ?thesis by linarith
qed









lemma round_double_eval:
  assumes "2 powi e \<le> \<bar>x\<bar>" and "\<bar>x\<bar> < 2 powi (e + 1)"
  shows "round_double x = of_int (round_half_even (x / 2 powi (e - 52))) * 2 powi (e - 52)"
proof -
  have "0 < (2::real) powi e" by simp
  with assms(1) have "0 < \<bar>x\<bar>" by linarith
  hence x: "x \<noteq> 0" by simp
  show ?thesis using x binary_exponent_unique [OF assms] by (simp add: round_double_def Let_def)
qed


lemma round_half_even_nearest: "\<bar>of_int (round_half_even q) - q\<bar> \<le> 1 / 2"
proof -
  have "of_int \<lfloor>q\<rfloor> \<le> q" "q < of_int \<lfloor>q\<rfloor> + 1" by linarith+
  then show ?thesis by (auto simp: round_half_even_def Let_def)
qed

lemma round_double_nearest:
  "\<bar>round_double x - x\<bar> \<le> 2 powi (binary_exponent x - 52) / 2"
proof (cases "x = 0")
  case True
  then show ?thesis by (simp add: round_double_def)
next
  case False
  define ulp :: real where "ulp = 2 powi (binary_exponent x - 52)"
  have ulp: "0 < ulp" by (simp add: ulp_def)
  have "round_double x - x = (of_int (round_half_even (x / ulp)) - x / ulp) * ulp"
    using False ulp by (simp add: round_double_def ulp_def [symmetric] Let_def field_simps)
  then have "\<bar>round_double x - x\<bar> = \<bar>of_int (round_half_even (x / ulp)) - x / ulp\<bar> * ulp"
    using ulp by (simp add: abs_mult)
  also have "\<dots> \<le> 1 / 2 * ulp"
    using round_half_even_nearest [of "x / ulp"] ulp by (simp only: mult_le_cancel_right_pos)
  finally show ?thesis by (simp add: ulp_def)
qed

lemma float_mul_eval:
  assumes "2 powi e \<le> \<bar>a * b\<bar>" and "\<bar>a * b\<bar> < 2 powi (e + 1)"
  shows "float_mul a b = of_int (round_half_even (a * b / 2 powi (e - 52))) * 2 powi (e - 52)"
  unfolding float_mul_def using assms by (rule round_double_eval)

lemma round_double_1_001: "round_double 1.001 = 2254051613498933 / 2251799813685248"
proof -
  have "round_double 1.001 = of_int (round_half_even (1.001 / 2 powi (0 - 52))) * 2 powi (0 - 52)"
    by (rule round_double_eval) simp_all
  also have "\<dots> = 2254051613498933 / 2251799813685248"
    by (simp add: round_half_even_def power_int_def power_one_over Let_def)
  finally show ?thesis .
qed

lemma round_double_0_999: "round_double 0.999 = 8998192055486251 / 9007199254740992"
proof -
  have "round_double 0.999 = of_int (round_half_even (0.999 / 2 powi (- 1 - 52))) * 2 powi (- 1 - 52)"
    by (rule round_double_eval) simp_all
  also have "\<dots> = 8998192055486251 / 9007199254740992"
    by (simp add: round_half_even_def power_int_def power_one_over Let_def)
  finally show ?thesis .
qed

lemma float_mul_1000_1_001: "float_mul 1000 (round_double 1.001) = 8804889115230207 / 8796093022208"
  unfolding round_double_1_001
proof -
  have "float_mul 1000 (2254051613498933 / 2251799813685248)
          = of_int (round_half_even (1000 * (2254051613498933 / 2251799813685248) / 2 powi (9 - 52))) * 2 powi (9 - 52)"
    by (rule float_mul_eval) simp_all
  also have "\<dots> = 8804889115230207 / 8796093022208"
    by (simp add: round_half_even_def power_int_def power_one_over Let_def)
  finally show "float_mul 1000 (2254051613498933 / 2251799813685248) = 8804889115230207 / 8796093022208" .
qed





lemma float_mul_neg_1000_1_001: "float_mul (- 1000) (round_double 1.001) = - (8804889115230207 / 8796093022208)"
  unfolding round_double_1_001
proof -
  have "float_mul (- 1000) (2254051613498933 / 2251799813685248)
          = of_int (round_half_even ((- 1000) * (2254051613498933 / 2251799813685248) / 2 powi (9 - 52))) * 2 powi (9 - 52)"
    by (rule float_mul_eval) simp_all
  also have "\<dots> = - (8804889115230207 / 8796093022208)"
    by (simp add: round_half_even_def power_int_def power_one_over Let_def)
  finally show "float_mul (- 1000) (2254051613498933 / 2251799813685248) = - (8804889115230207 / 8796093022208)" .
qed

lemma float_mul_neg_1000_0_999: "float_mul (- 1000) (round_double 0.999) = - 999"
  unfolding round_double_0_999
proof -
  have "float_mul (- 1000) (8998192055486251 / 9007199254740992)
          = of_int (round_half_even ((- 1000) * (8998192055486251 / 9007199254740992) / 2 powi (9 - 52))) * 2 powi (9 - 52)"
    by (rule float_mul_eval) simp_all
  also have "\<dots> = - 999"
    by (simp add: round_half_even_def power_int_def power_one_over Let_def)
  finally show "float_mul (- 1000) (8998192055486251 / 9007199254740992) = - 999" .
qed

lemma float_mul_1000_0_999: "float_mul 1000 (round_double 0.999) = 999"
  unfolding round_double_0_999
proof -
  have "float_mul 1000 (8998192055486251 / 9007199254740992)
          = of_int (round_half_even (1000 * (8998192055486251 / 9007199254740992) / 2 powi (9 - 52))) * 2 powi (9 - 52)"
    by (rule float_mul_eval) simp_all
  also have "\<dots> = 999"
    by (simp add: round_half_even_def power_int_def power_one_over Let_def)
  finally show "float_mul 1000 (8998192055486251 / 9007199254740992) = 999" .
qed

subsection \<open>Data preparation\<close>

lemma close_iloc_next:
  assumes "''close'' \<in> set (columns df)" and "i + sl < length (rows df)"
  shows "close_iloc df (int i + int sl) = Inr ((rows df ! (i + sl)) ''close'')"
proof -
  have "nat (int i + int sl) = i + sl" by simp
  with assms show ?thesis by (simp add: close_iloc_def series_iloc_def)
qed

lemma close_iloc_current:
  assumes "''close'' \<in> set (columns df)" and "i + sl < length (rows df)"
  shows "close_iloc df (int i + int sl - 1) =
    Inr ((if i + sl = 0 then last (rows df) else rows df ! (i + sl - 1)) ''close'')"
proof (cases "i + sl = 0")
  case True
  with assms(2) have ne: "rows df \<noteq> []" by auto
  then have pos: "Suc 0 \<le> length (rows df)" by (cases "rows df") simp_all
  have "nat (int (length (rows df)) - 1) = length (rows df) - 1" by simp
  with True assms ne pos show ?thesis
    by (simp add: close_iloc_def series_iloc_def last_conv_nth)
next
  case False
  then have eq: "int i + int sl - 1 = int (i + sl - 1)" by linarith
  from assms(2) have "i + sl - 1 < length (rows df)" by linarith
  with assms(1) False show ?thesis
    unfolding eq by (auto simp: close_iloc_def series_iloc_def)
qed


lemma target_one_hot:
  "target a b = [1, 0, 0] \<or> target a b = [0, 1, 0] \<or> target a b = [0, 0, 1]"
  by (simp add: target_def)

lemma build_sequences_Inr:
  assumes "''close'' \<in> set (columns df)" and "\<forall>i \<in> set idx. i + sl < length (rows df)"
  shows "build_sequences sl df scaled idx =
    Inr (map (\<lambda>i. take sl (drop i scaled)) idx,
         map (\<lambda>i. target ((rows df ! (i + sl)) ''close'')
                      ((if i + sl = 0 then last (rows df) else rows df ! (i + sl - 1)) ''close''))
             idx)"
  using assms(2)
proof (induction idx)
  case Nil
  then show ?case by simp
next
  case (Cons i idx)
  then have i: "i + sl < length (rows df)" by simp
  show ?case
    using Cons close_iloc_next [OF assms(1) i] close_iloc_current [OF assms(1) i]
    by (simp add: window_example_def)
qed


lemma fit_transform_Inr:
  assumes "features \<noteq> []" and "0 < n"
  shows "\<exists>scaled. fit_transform n features = Inr scaled \<and> length scaled = length features"
  using assms by (simp add: fit_transform_def)

lemma fit_transform_length:
  assumes "fit_transform n features = Inr scaled"
  shows "length scaled = length features"
  using assms by (auto simp: fit_transform_def split: if_splits)

lemma prepare_data_short:
  assumes "length (rows df) < sl + 1"
  shows "(\<exists>e. prepare_data fc sl df = Inl e) \<or> prepare_data fc sl df = Inr ([], [])"
proof (cases "prepare_data fc sl df")
  case (Inl e)
  then show ?thesis by simp
next
  case (Inr r)
  then obtain scaled where
    f: "fit_transform (length fc) (map (\<lambda>r. map r fc) (rows df)) = Inr scaled" and
    b: "build_sequences sl df scaled [0..<length scaled - sl] = Inr r"
    by (auto simp: prepare_data_def split: if_splits sum.splits)
  from fit_transform_length [OF f] assms have "length scaled - sl = 0" by simp
  with b have "r = ([], [])" by simp
  with Inr show ?thesis by simp
qed
lemma prepare_data_Inr:
  assumes "set fc \<subseteq> set (columns df)" and "fc \<noteq> []" and "rows df \<noteq> []"
    and "''close'' \<in> set (columns df)"
  shows "prepare_data fc sl df =
    Inr (map (\<lambda>i. take sl (drop i (the_scaled fc df))) [0..<length (rows df) - sl],
         map (\<lambda>i. target ((rows df ! (i + sl)) ''close'')
                      ((if i + sl = 0 then last (rows df) else rows df ! (i + sl - 1)) ''close''))
             [0..<length (rows df) - sl])
    \<and> length (the_scaled fc df) = length (rows df)"
proof -
  define features where "features = map (\<lambda>r. map r fc) (rows df)"
  have fne: "features \<noteq> []" using assms(3) by (simp add: features_def)
  have pos: "0 < length fc" using assms(2) by simp
  from fit_transform_Inr [OF fne pos] obtain scaled where
    f: "fit_transform (length fc) features = Inr scaled" and
    l: "length scaled = length features"
    by blast
  have len: "length scaled = length (rows df)" using l by (simp add: features_def)
  have s: "the_scaled fc df = scaled"
    unfolding the_scaled_def features_def [symmetric] f by simp
  have m: "set fc - set (columns df) = {}" using assms(1) by blast
  have b: "\<forall>i \<in> set [0..<length (rows df) - sl]. i + sl < length (rows df)"
    by auto
  have p: "prepare_data fc sl df =
      build_sequences sl df scaled [0..<length (rows df) - sl]"
    unfolding prepare_data_def features_def [symmetric] f m by (simp add: len)
  show ?thesis
    unfolding p s build_sequences_Inr [OF assms(4) b] using len by simp
qed

text \<open>
  Claim C6 (as amended).  On a frame that has the feature columns and the close column, with
  at least one feature column configured: a frame of \<open>n \<ge> 1\<close> rows gives \<open>n - sequence_length\<close>
  windows of \<open>sequence_length\<close> rows each and as many labels, each label one of the three
  one-hot vectors; in particular more than \<open>sequence_length + 1\<close> rows give exactly that many
  examples, and from 1 to \<open>sequence_length\<close> rows give two empty arrays.  A frame without
  rows is rejected by the scaler and \<open>prepare_data\<close> raises ValueError.
\<close>

theorem prepare_data_examples:
  assumes "set feature_columns \<subseteq> set (columns df)" and "feature_columns \<noteq> []"
    and "''close'' \<in> set (columns df)"
  shows "(sequence_length + 1 < length (rows df) \<longrightarrow>
            (\<exists>X y. prepare_data feature_columns sequence_length df = Inr (X, y)
               \<and> length X = length (rows df) - sequence_length
               \<and> length y = length (rows df) - sequence_length
               \<and> (\<forall>x \<in> set X. length x = sequence_length)
               \<and> (\<forall>t \<in> set y. t = [1, 0, 0] \<or> t = [0, 1, 0] \<or> t = [0, 0, 1])))
       \<and> (1 \<le> length (rows df) \<and> length (rows df) < sequence_length + 1 \<longrightarrow>
            prepare_data feature_columns sequence_length df = Inr ([], []))
       \<and> (length (rows df) = 0 \<longrightarrow>
            prepare_data feature_columns sequence_length df = Inl ValueError)"
proof (intro conjI impI)
  assume long: "sequence_length + 1 < length (rows df)"
  then have ne: "rows df \<noteq> []" by auto
  define X where "X = map (\<lambda>i. take sequence_length (drop i (the_scaled feature_columns df)))
              [0..<length (rows df) - sequence_length]"
  define y where "y = map (\<lambda>i. target ((rows df ! (i + sequence_length)) ''close'')
                      ((if i + sequence_length = 0 then last (rows df)
                        else rows df ! (i + sequence_length - 1)) ''close''))
              [0..<length (rows df) - sequence_length]"
  from prepare_data_Inr [OF assms(1,2) ne assms(3), of sequence_length]
  have 1: "prepare_data feature_columns sequence_length df = Inr (X, y)"
    and len: "length (the_scaled feature_columns df) = length (rows df)"
    unfolding X_def y_def by blast+
  have lx: "length X = length (rows df) - sequence_length" by (simp add: X_def)
  have ly: "length y = length (rows df) - sequence_length" by (simp add: y_def)
  have 2: "\<forall>x \<in> set X. length x = sequence_length"
  proof
    fix x assume "x \<in> set X"
    then obtain i where i: "i < length (rows df) - sequence_length"
      and x: "x = take sequence_length (drop i (the_scaled feature_columns df))"
      unfolding X_def by auto
    from i have "sequence_length \<le> length (rows df) - i" by linarith
    then show "length x = sequence_length" unfolding x by (simp add: len)
  qed
  have 3: "\<forall>t \<in> set y. t = [1, 0, 0] \<or> t = [0, 1, 0] \<or> t = [0, 0, 1]"
  proof
    fix t assume "t \<in> set y"
    then obtain a b where "t = target a b" unfolding y_def by auto
    then show "t = [1, 0, 0] \<or> t = [0, 1, 0] \<or> t = [0, 0, 1]"
      using target_one_hot [of a b] by simp
  qed
  from 1 lx ly 2 3
  show "\<exists>X y. prepare_data feature_columns sequence_length df = Inr (X, y)
               \<and> length X = length (rows df) - sequence_length
               \<and> length y = length (rows df) - sequence_length
               \<and> (\<forall>x \<in> set X. length x = sequence_length)
               \<and> (\<forall>t \<in> set y. t = [1, 0, 0] \<or> t = [0, 1, 0] \<or> t = [0, 0, 1])"
    by blast
next
  assume short: "1 \<le> length (rows df) \<and> length (rows df) < sequence_length + 1"
  then have ne: "rows df \<noteq> []" by auto
  from short have z: "length (rows df) - sequence_length = 0" by simp
  from prepare_data_Inr [OF assms(1,2) ne assms(3), of sequence_length]
  show "prepare_data feature_columns sequence_length df = Inr ([], [])"
    unfolding z by simp
next
  assume e: "length (rows df) = 0"
  have m: "set feature_columns - set (columns df) = {}" using assms(1) by blast
  from e have r: "rows df = []" by simp
  show "prepare_data feature_columns sequence_length df = Inl ValueError"
    unfolding prepare_data_def m r by (simp add: fit_transform_def)
qed
theorem prepare_data_examples_witness:
  "(\<exists>X y. prepare_data [''close''] 2 rising_frame = Inr (X, y) \<and> length X = 2 \<and> length y = 2)
   \<and> prepare_data [''close''] 2 short_frame = Inr ([], [])"
proof -
  have a: "set [''close''] \<subseteq> set (columns rising_frame)" by (simp add: rising_frame_def)
  have a': "set [''close''] \<subseteq> set (columns short_frame)" by (simp add: short_frame_def)
  have b: "[''close''] \<noteq> []" by simp
  have c: "''close'' \<in> set (columns rising_frame)" by (simp add: rising_frame_def)
  have c': "''close'' \<in> set (columns short_frame)" by (simp add: short_frame_def)
  have d: "length (rows rising_frame) = 4" by (simp add: rising_frame_def)
  have d': "length (rows short_frame) = 2" by (simp add: short_frame_def)
  from prepare_data_examples [OF a b c, of 2] d
  have 1: "\<exists>X y. prepare_data [''close''] 2 rising_frame = Inr (X, y) \<and> length X = 2 \<and> length y = 2"
    by auto
  from prepare_data_examples [OF a' b c', of 2] d'
  have 2: "prepare_data [''close''] 2 short_frame = Inr ([], [])"
    by simp
  from 1 2 show ?thesis by blast
qed

text \<open>
  The claim as stated fails on a frame without rows: the columns are there, 0 is less than
  \<open>sequence_length + 1\<close>, and the result is the scaler's ValueError, not two empty arrays.
\<close>

theorem prepare_data_empty_frame_raises:
  "set [''close''] \<subseteq> set (columns empty_frame)
   \<and> length (rows empty_frame) < 2 + 1
   \<and> prepare_data [''close''] 2 empty_frame = Inl ValueError
   \<and> prepare_data [''close''] 2 empty_frame \<noteq> Inr ([], [])"
  by (simp add: empty_frame_def prepare_data_def fit_transform_def)









subsection \<open>Data preparation on the concrete frames\<close>


lemma target_999_1000: "target 999 1000 = [0, 0, 1]"
  unfolding target_def float_mul_1000_1_001 float_mul_1000_0_999 by simp



lemma target_negative: "target (- 1000) (- 1000) = [1, 0, 0]"
  unfolding target_def float_mul_neg_1000_1_001 by simp



lemma prepare_data_negative_frame:
  "prepare_data [''close''] 1 negative_frame = Inr ([[[0]]], [[1, 0, 0]])"
  by (simp add: prepare_data_def fit_transform_def negative_frame_def column_at_def
        scale_attr_def min_attr_def data_min_def data_max_def window_example_def
        close_iloc_def series_iloc_def target_negative
        upt_rec [of 0] upt_rec [of 1] Let_def)




text \<open>
  At the lower boundary the product of 1000.0 with the double nearest to 0.999 rounds to
  999.0, and the closes 1000.0 and 999.0 are HOLD.  For a negative current close the two
  tests can hold together, and the BUY test is made first: with two closes of \<open>-1000\<close> the
  next close is below the second product \<open>-999\<close>, yet the label is BUY.
\<close>

lemma lower_boundary_labelled_hold:
  "target 999 1000 = [0, 0, 1] \<and> float_mul 1000 (round_double 0.999) = 999"
  using target_999_1000 float_mul_1000_0_999 by (intro conjI)

lemma sell_test_shadowed_by_buy:
  "prepare_data [''close''] 1 negative_frame = Inr ([[[0]]], [[1, 0, 0]])
   \<and> close_iloc negative_frame (int 0 + int 1) = Inr (- 1000)
   \<and> close_iloc negative_frame (int 0 + int 1 - 1) = Inr (- 1000)
   \<and> (- 1000::real) < float_mul (- 1000) (round_double 0.999)"
proof -
  have n: "close_iloc negative_frame (int 0 + int 1) = Inr (- 1000)"
    by (simp add: close_iloc_def series_iloc_def negative_frame_def)
  have c: "close_iloc negative_frame (int 0 + int 1 - 1) = Inr (- 1000)"
    by (simp add: close_iloc_def series_iloc_def negative_frame_def)
  have l: "(- 1000::real) < float_mul (- 1000) (round_double 0.999)"
    unfolding float_mul_neg_1000_0_999 by simp
  from prepare_data_negative_frame n c l show ?thesis by (intro conjI)
qed

subsection \<open>Prediction\<close>

lemma predict_short:
  assumes "length (rows df) < sl + 1"
  shows "predict fc sl net now df = safe_neutral now"
proof -
  from prepare_data_short [OF assms, of fc]
  show ?thesis
  proof
    assume "\<exists>e. prepare_data fc sl df = Inl e"
    then obtain e where "prepare_data fc sl df = Inl e" by (elim exE)
    then show ?thesis by (simp add: predict_def predict_body_def)
  next
    assume "prepare_data fc sl df = Inr ([], [])"
    then show ?thesis by (simp add: predict_def predict_body_def)
  qed
qed

lemma predict_malformed_output:
  assumes "prepare_data fc sl df = Inr (X, y)" and "X \<noteq> []"
    and "net [last X] = Inr p" and "length p < 3"
  shows "predict fc sl net now df = safe_neutral now"
proof -
  have "predict_body fc sl net now df = Inl ValueError
      \<or> predict_body fc sl net now df = Inl IndexError"
    using assms by (simp add: predict_body_def Let_def)
  then show ?thesis by (auto simp: predict_def)
qed

text \<open>
  Claim C3.  \<open>predict\<close> returns a record on every input: whatever is raised inside its
  \<^verbatim>\<open>try\<close> (a failing preparation, no window, a failing network, an output with
  fewer than three probabilities) is replaced by the neutral record, signal HOLD,
  confidence 0.0, probabilities buy 0.0, sell 0.0, hold 1.0.  A series shorter than
  \<open>sequence_length + 1\<close> always ends there.
\<close>

theorem predict_returns_safe_neutral:
  "(length (rows df) < sequence_length + 1 \<longrightarrow>
      predict feature_columns sequence_length net now df = safe_neutral now)
   \<and> (predict_body feature_columns sequence_length net now df = Inl e \<longrightarrow>
      predict feature_columns sequence_length net now df = safe_neutral now)
   \<and> (prepare_data feature_columns sequence_length df = Inl e \<longrightarrow>
      predict feature_columns sequence_length net now df = safe_neutral now)
   \<and> (prepare_data feature_columns sequence_length df = Inr ([], y) \<longrightarrow>
      predict feature_columns sequence_length net now df = safe_neutral now)
   \<and> (prepare_data feature_columns sequence_length df = Inr (X, y) \<and> X \<noteq> []
        \<and> net [last X] = Inl e \<longrightarrow>
      predict feature_columns sequence_length net now df = safe_neutral now)
   \<and> (prepare_data feature_columns sequence_length df = Inr (X, y) \<and> X \<noteq> []
        \<and> net [last X] = Inr p \<and> length p < 3 \<longrightarrow>
      predict feature_columns sequence_length net now df = safe_neutral now)
   \<and> signal (safe_neutral now) = ''HOLD''
   \<and> confidence (safe_neutral now) = Some 0.0
   \<and> probabilities (safe_neutral now)
        = Some [''buy'' \<mapsto> 0.0, ''sell'' \<mapsto> 0.0, ''hold'' \<mapsto> 1.0]"
proof (intro conjI impI)
  assume "length (rows df) < sequence_length + 1"
  then show "predict feature_columns sequence_length net now df = safe_neutral now"
    by (rule predict_short)
next
  assume "predict_body feature_columns sequence_length net now df = Inl e"
  then show "predict feature_columns sequence_length net now df = safe_neutral now"
    by (simp add: predict_def)
next
  assume "prepare_data feature_columns sequence_length df = Inl e"
  then show "predict feature_columns sequence_length net now df = safe_neutral now"
    by (simp add: predict_def predict_body_def)
next
  assume "prepare_data feature_columns sequence_length df = Inr ([], y)"
  then show "predict feature_columns sequence_length net now df = safe_neutral now"
    by (simp add: predict_def predict_body_def)
next
  assume "prepare_data feature_columns sequence_length df = Inr (X, y) \<and> X \<noteq> []
        \<and> net [last X] = Inl e"
  then show "predict feature_columns sequence_length net now df = safe_neutral now"
    by (simp add: predict_def predict_body_def)
next
  assume "prepare_data feature_columns sequence_length df = Inr (X, y) \<and> X \<noteq> []
        \<and> net [last X] = Inr p \<and> length p < 3"
  then show "predict feature_columns sequence_length net now df = safe_neutral now"
    using predict_malformed_output by blast
next
  show "signal (safe_neutral now) = ''HOLD''" by (simp add: safe_neutral_def)
  show "confidence (safe_neutral now) = Some 0.0" by (simp add: safe_neutral_def)
  show "probabilities (safe_neutral now)
        = Some [''buy'' \<mapsto> 0.0, ''sell'' \<mapsto> 0.0, ''hold'' \<mapsto> 1.0]"
    by (simp add: safe_neutral_def)
qed

theorem predict_returns_safe_neutral_witness:
  "predict [''close''] 2 constant_net ''t4'' short_frame = safe_neutral ''t4''
   \<and> predict [''close''] 2 constant_net ''t4'' empty_frame = safe_neutral ''t4''"
proof -
  have s: "length (rows short_frame) < 2 + 1" by (simp add: short_frame_def)
  have e: "length (rows empty_frame) < 2 + 1" by (simp add: empty_frame_def)
  have 1: "predict [''close''] 2 constant_net ''t4'' short_frame = safe_neutral ''t4''"
    by (rule predict_returns_safe_neutral
          [of short_frame 2 "[''close'']" constant_net "''t4''", THEN conjunct1, THEN mp, OF s])
  have 2: "predict [''close''] 2 constant_net ''t4'' empty_frame = safe_neutral ''t4''"
    by (rule predict_returns_safe_neutral
          [of empty_frame 2 "[''close'']" constant_net "''t4''", THEN conjunct1, THEN mp, OF e])
  from 1 2 show ?thesis by (intro conjI)
qed

subsection \<open>Loading a model version\<close>

text \<open>
  Claim C4 (as amended).  Loading fails with FileNotFoundError when the model file of the
  requested version is absent, and then, as whenever the model file cannot be read, the
  state is left as it was.  A load succeeds exactly when both files can be read, and then
  installs the model, the scale and the version.  A load that fails leaves the scale and
  the version counter as they were; if it fails after the model file was read (at the
  scaler file), the model has already been replaced by the one read.
\<close>

theorem load_specific_version_outcomes:
  "(model_file dir version = Absent \<longrightarrow>
      load_specific_version st dir version = (st, Inl FileNotFoundError))
   \<and> (model_file dir version = Unreadable \<longrightarrow>
      load_specific_version st dir version = (st, Inl LoadError))
   \<and> (model_file dir version = Readable m \<and> scaler_file dir version = Readable s \<longrightarrow>
      load_specific_version st dir version
        = (st\<lparr>model := m, scaler_scale := s, model_version := version\<rparr>, Inr ()))
   \<and> (snd (load_specific_version st dir version) = Inr () \<longrightarrow>
      (\<exists>m' s'. model_file dir version = Readable m' \<and> scaler_file dir version = Readable s'))
   \<and> (snd (load_specific_version st dir version) = Inl e \<longrightarrow>
      scaler_scale (fst (load_specific_version st dir version)) = scaler_scale st
      \<and> model_version (fst (load_specific_version st dir version)) = model_version st)
   \<and> (snd (load_specific_version st dir version) = Inl e \<and> model_file dir version = Readable m
        \<longrightarrow> fst (load_specific_version st dir version) = st\<lparr>model := m\<rparr>)"
  by (cases "model_file dir version"; cases "scaler_file dir version")
     (simp_all add: load_specific_version_def Let_def)

theorem load_specific_version_outcomes_witness:
  "load_specific_version active_state half_saved_dir 2 = (active_state, Inl FileNotFoundError)"
proof -
  have a: "model_file half_saved_dir 2 = Absent" by (simp add: half_saved_dir_def)
  show ?thesis
    by (rule load_specific_version_outcomes
          [of half_saved_dir 2 active_state, THEN conjunct1, THEN mp, OF a])
qed

text \<open>
  The claim as stated fails when the model file is there and the scaler file is not: the
  load raises FileNotFoundError, and the model in memory is no longer the previous one.
\<close>

theorem failed_load_replaces_model:
  "snd (load_specific_version active_state half_saved_dir 1) = Inl FileNotFoundError
   \<and> fst (load_specific_version active_state half_saved_dir 1) \<noteq> active_state
   \<and> model (fst (load_specific_version active_state half_saved_dir 1)) = 11
   \<and> model active_state = 7"
  by (simp add: load_specific_version_def half_saved_dir_def active_state_def Let_def)

subsection \<open>Support and resistance levels\<close>

lemma confirmed_levels_sorted_distinct:
  "sorted (confirmed_levels df w nt)" "distinct (confirmed_levels df w nt)"
  by (simp_all add: confirmed_levels_def Let_def)

lemma confirmed_levels_set:
  "set (confirmed_levels df w nt)
     = (\<Union>i\<in>{w..<length (rows df) - w}.
          set (levels_at w nt (map (\<lambda>r. r ''high'') (rows df))
                 (map (\<lambda>r. r ''low'') (rows df)) i))"
  by (simp add: confirmed_levels_def Let_def)

lemma close_iloc_last:
  assumes "''close'' \<in> set (columns df)" and "rows df \<noteq> []"
  shows "close_iloc df (- 1) = Inr (last (rows df) ''close'')"
proof -
  from assms(2) obtain ys y where r: "rows df = ys @ [y]"
    by (cases "rows df" rule: rev_cases) auto
  show ?thesis using assms(1) by (simp add: close_iloc_def series_iloc_def r nth_append)
qed

lemma close_iloc_last_InrD:
  assumes "close_iloc df (- 1) = Inr price"
  shows "''close'' \<in> set (columns df)" and "rows df \<noteq> []"
  using assms by (auto simp: close_iloc_def series_iloc_def split: if_splits)

lemma detect_support_resistance_success:
  assumes "''high'' \<in> set (columns df)" and "''low'' \<in> set (columns df)" and "0 \<le> window"
    and "close_iloc df (- 1) = Inr price"
  shows "detect_support_resistance df window num_touches
           = [''support'' \<mapsto> filter (\<lambda>level. level < price)
                                 (confirmed_levels df (nat window) num_touches),
              ''resistance'' \<mapsto> filter (\<lambda>level. level > price)
                                    (confirmed_levels df (nat window) num_touches)]"
  using assms
  by (simp add: detect_support_resistance_def detect_support_resistance_body_def Let_def)

lemma detect_support_resistance_failure:
  assumes "(\<forall>price. close_iloc df (- 1) \<noteq> Inr price) \<or> ''high'' \<notin> set (columns df)
           \<or> ''low'' \<notin> set (columns df) \<or> window < 0"
  shows "detect_support_resistance df window num_touches
           = [''support'' \<mapsto> [], ''resistance'' \<mapsto> []]"
  using assms
  by (auto simp: detect_support_resistance_def detect_support_resistance_body_def Let_def
        split: sum.splits)

lemma detect_support_resistance_cases:
  "(\<exists>price. close_iloc df (- 1) = Inr price
      \<and> dict_get (detect_support_resistance df window num_touches) ''support''
          = filter (\<lambda>level. level < price) (confirmed_levels df (nat window) num_touches)
      \<and> dict_get (detect_support_resistance df window num_touches) ''resistance''
          = filter (\<lambda>level. level > price) (confirmed_levels df (nat window) num_touches))
   \<or> (dict_get (detect_support_resistance df window num_touches) ''support'' = []
      \<and> dict_get (detect_support_resistance df window num_touches) ''resistance'' = [])"
proof (cases "''high'' \<in> set (columns df) \<and> ''low'' \<in> set (columns df) \<and> 0 \<le> window
              \<and> (\<exists>price. close_iloc df (- 1) = Inr price)")
  case True
  then obtain price where p: "close_iloc df (- 1) = Inr price" by blast
  from True have h: "''high'' \<in> set (columns df)" and l: "''low'' \<in> set (columns df)"
    and w: "0 \<le> window" by simp_all
  show ?thesis
    unfolding detect_support_resistance_success [OF h l w p]
    using p by (simp add: dict_get_def)
next
  case False
  then have "(\<forall>price. close_iloc df (- 1) \<noteq> Inr price) \<or> ''high'' \<notin> set (columns df)
           \<or> ''low'' \<notin> set (columns df) \<or> window < 0" by auto
  from detect_support_resistance_failure [OF this]
  show ?thesis by (simp add: dict_get_def)
qed

text \<open>
  Claim C8.  For every frame, window and number of touches the detector returns two lists
  partitioned by the most recent close, \<^verbatim>\<open>df['close'].iloc[-1]\<close>, the close of the last row:
  every support level is strictly below it and every resistance level strictly above it, so
  a level equal to the close is in neither list and no level is in both.  When the columns
  are there and the window is not negative, the two lists are the levels below and the
  levels above the close among \<open>confirmed_levels\<close>, the list of the appended levels after
  \<^verbatim>\<open>sorted(list(set(levels)))\<close>, which is sorted ascending, holds no level twice and holds
  exactly the levels appended by the loop; so both lists are sorted ascending and without
  duplicates.  When there is no most recent close, or a column is missing, or the window is
  negative, both lists are empty.  The tolerance test of a touch is in real arithmetic; none
  of this depends on which bars count as touches.
\<close>

theorem detect_support_resistance_partition:
  "(\<forall>price. close_iloc df (- 1) = Inr price \<longrightarrow>
       price = last (rows df) ''close''
     \<and> (\<forall>level\<in>set (dict_get (detect_support_resistance df window num_touches) ''support'').
           level < price)
     \<and> (\<forall>level\<in>set (dict_get (detect_support_resistance df window num_touches)
                        ''resistance''). price < level)
     \<and> price \<notin> set (dict_get (detect_support_resistance df window num_touches) ''support'')
     \<and> price \<notin> set (dict_get (detect_support_resistance df window num_touches)
                       ''resistance'')
     \<and> (''high'' \<in> set (columns df) \<and> ''low'' \<in> set (columns df) \<and> 0 \<le> window \<longrightarrow>
          dict_get (detect_support_resistance df window num_touches) ''support''
            = filter (\<lambda>level. level < price) (confirmed_levels df (nat window) num_touches)
        \<and> dict_get (detect_support_resistance df window num_touches) ''resistance''
            = filter (\<lambda>level. level > price) (confirmed_levels df (nat window) num_touches)))
   \<and> ((\<forall>price. close_iloc df (- 1) \<noteq> Inr price) \<or> ''high'' \<notin> set (columns df)
        \<or> ''low'' \<notin> set (columns df) \<or> window < 0 \<longrightarrow>
        dict_get (detect_support_resistance df window num_touches) ''support'' = []
      \<and> dict_get (detect_support_resistance df window num_touches) ''resistance'' = [])
   \<and> set (dict_get (detect_support_resistance df window num_touches) ''support'')
        \<inter> set (dict_get (detect_support_resistance df window num_touches) ''resistance'') = {}
   \<and> sorted (dict_get (detect_support_resistance df window num_touches) ''support'')
   \<and> distinct (dict_get (detect_support_resistance df window num_touches) ''support'')
   \<and> sorted (dict_get (detect_support_resistance df window num_touches) ''resistance'')
   \<and> distinct (dict_get (detect_support_resistance df window num_touches) ''resistance'')
   \<and> sorted (confirmed_levels df w num_touches)
   \<and> distinct (confirmed_levels df w num_touches)
   \<and> set (confirmed_levels df w num_touches)
        = (\<Union>i\<in>{w..<length (rows df) - w}.
             set (levels_at w num_touches (map (\<lambda>r. r ''high'') (rows df))
                    (map (\<lambda>r. r ''low'') (rows df)) i))"
proof -
  define sup where "sup = dict_get (detect_support_resistance df window num_touches) ''support''"
  define res where
    "res = dict_get (detect_support_resistance df window num_touches) ''resistance''"
  define lv where "lv = confirmed_levels df (nat window) num_touches"
  have lv: "sorted lv" "distinct lv"
    unfolding lv_def by (rule confirmed_levels_sorted_distinct)+
  have cases: "(\<exists>price. close_iloc df (- 1) = Inr price
                  \<and> sup = filter (\<lambda>level. level < price) lv
                  \<and> res = filter (\<lambda>level. level > price) lv)
               \<or> (sup = [] \<and> res = [])"
    using detect_support_resistance_cases [of df window num_touches]
    unfolding sup_def res_def lv_def .
  have part: "(\<forall>level\<in>set sup. level < price) \<and> (\<forall>level\<in>set res. price < level)"
    if p: "close_iloc df (- 1) = Inr price" for price
    using cases
  proof (elim disjE exE conjE)
    fix q
    assume q: "close_iloc df (- 1) = Inr q"
      and s: "sup = filter (\<lambda>level. level < q) lv" and r: "res = filter (\<lambda>level. level > q) lv"
    from p q have "q = price" by simp
    then show ?thesis unfolding s r by simp
  next
    assume "sup = []" "res = []"
    then show ?thesis by simp
  qed
  have sd: "sorted sup \<and> distinct sup \<and> sorted res \<and> distinct res \<and> set sup \<inter> set res = {}"
    using cases
  proof (elim disjE exE conjE)
    fix q
    assume s: "sup = filter (\<lambda>level. level < q) lv" and r: "res = filter (\<lambda>level. level > q) lv"
    have "sorted (filter (\<lambda>level. level < q) lv)" "sorted (filter (\<lambda>level. level > q) lv)"
      using lv(1) by (rule sorted_wrt_filter)+
    moreover have "distinct (filter (\<lambda>level. level < q) lv)"
      "distinct (filter (\<lambda>level. level > q) lv)"
      using lv(2) by simp_all
    moreover have "set (filter (\<lambda>level. level < q) lv) \<inter> set (filter (\<lambda>level. level > q) lv) = {}"
      by auto
    ultimately show ?thesis unfolding s r by (intro conjI)
  next
    assume "sup = []" "res = []"
    then show ?thesis by simp
  qed
  have 1: "\<forall>price. close_iloc df (- 1) = Inr price \<longrightarrow>
       price = last (rows df) ''close''
     \<and> (\<forall>level\<in>set sup. level < price)
     \<and> (\<forall>level\<in>set res. price < level)
     \<and> price \<notin> set sup
     \<and> price \<notin> set res
     \<and> (''high'' \<in> set (columns df) \<and> ''low'' \<in> set (columns df) \<and> 0 \<le> window \<longrightarrow>
          sup = filter (\<lambda>level. level < price) lv
        \<and> res = filter (\<lambda>level. level > price) lv)"
  proof (intro allI impI)
    fix price
    assume p: "close_iloc df (- 1) = Inr price"
    from close_iloc_last_InrD [OF p] close_iloc_last [of df] p
    have a: "price = last (rows df) ''close''" by simp
    from part [OF p]
    have b: "(\<forall>level\<in>set sup. level < price) \<and> (\<forall>level\<in>set res. price < level)" .
    from b have b1: "\<forall>level\<in>set sup. level < price"
      and b2: "\<forall>level\<in>set res. price < level" by simp_all
    from b1 have c1: "price \<notin> set sup" by auto
    from b2 have c2: "price \<notin> set res" by auto
    have d: "''high'' \<in> set (columns df) \<and> ''low'' \<in> set (columns df) \<and> 0 \<le> window \<longrightarrow>
          sup = filter (\<lambda>level. level < price) lv
        \<and> res = filter (\<lambda>level. level > price) lv"
      unfolding sup_def res_def lv_def
      using p by (auto simp: detect_support_resistance_success dict_get_def)
    show "price = last (rows df) ''close''
     \<and> (\<forall>level\<in>set sup. level < price)
     \<and> (\<forall>level\<in>set res. price < level)
     \<and> price \<notin> set sup
     \<and> price \<notin> set res
     \<and> (''high'' \<in> set (columns df) \<and> ''low'' \<in> set (columns df) \<and> 0 \<le> window \<longrightarrow>
          sup = filter (\<lambda>level. level < price) lv
        \<and> res = filter (\<lambda>level. level > price) lv)"
      by (intro conjI a b1 b2 c1 c2 d)
  qed
  have 2: "(\<forall>price. close_iloc df (- 1) \<noteq> Inr price) \<or> ''high'' \<notin> set (columns df)
        \<or> ''low'' \<notin> set (columns df) \<or> window < 0 \<longrightarrow> sup = [] \<and> res = []"
  proof
    assume "(\<forall>price. close_iloc df (- 1) \<noteq> Inr price) \<or> ''high'' \<notin> set (columns df)
        \<or> ''low'' \<notin> set (columns df) \<or> window < 0"
    from detect_support_resistance_failure [OF this, of num_touches]
    show "sup = [] \<and> res = []" unfolding sup_def res_def by (simp add: dict_get_def)
  qed
  from sd have 3: "set sup \<inter> set res = {}" by simp
  from sd have 4: "sorted sup" "distinct sup" "sorted res" "distinct res" by simp_all
  note 5 = confirmed_levels_sorted_distinct [of df w num_touches]
    confirmed_levels_set [of df w num_touches]
  show ?thesis
    using 1 2 3 4 5 unfolding sup_def res_def lv_def by (intro conjI)
qed

lemma confirmed_levels_candle_frame: "confirmed_levels candle_frame 1 1 = [10, 12, 13]"
  by (simp add: confirmed_levels_def candle_frame_def levels_at_def rolling_center_def
        count_touches_def upt_conv_Cons Let_def)

lemma close_iloc_candle_frame: "close_iloc candle_frame (- 1) = Inr 12"
  by (simp add: close_iloc_def series_iloc_def candle_frame_def)

theorem detect_support_resistance_partition_witness:
  "close_iloc candle_frame (- 1) = Inr 12
   \<and> confirmed_levels candle_frame 1 1 = [10, 12, 13]
   \<and> dict_get (detect_support_resistance candle_frame 1 1) ''support'' = [10]
   \<and> dict_get (detect_support_resistance candle_frame 1 1) ''resistance'' = [13]"
proof -
  note t = detect_support_resistance_partition [of candle_frame 1 1 1,
      THEN conjunct1, THEN spec, THEN mp, OF close_iloc_candle_frame]
  have c: "''high'' \<in> set (columns candle_frame) \<and> ''low'' \<in> set (columns candle_frame)
           \<and> (0::int) \<le> 1"
    by (simp add: candle_frame_def)
  from t have "''high'' \<in> set (columns candle_frame) \<and> ''low'' \<in> set (columns candle_frame)
           \<and> (0::int) \<le> 1 \<longrightarrow>
          dict_get (detect_support_resistance candle_frame 1 1) ''support''
            = filter (\<lambda>level. level < 12) (confirmed_levels candle_frame (nat 1) 1)
        \<and> dict_get (detect_support_resistance candle_frame 1 1) ''resistance''
            = filter (\<lambda>level. level > 12) (confirmed_levels candle_frame (nat 1) 1)"
    by (elim conjE)
  with c have "dict_get (detect_support_resistance candle_frame 1 1) ''support''
            = filter (\<lambda>level. level < 12) (confirmed_levels candle_frame 1 1)
        \<and> dict_get (detect_support_resistance candle_frame 1 1) ''resistance''
            = filter (\<lambda>level. level > 12) (confirmed_levels candle_frame 1 1)"
    by simp
  then have s: "dict_get (detect_support_resistance candle_frame 1 1) ''support'' = [10]"
    and r: "dict_get (detect_support_resistance candle_frame 1 1) ''resistance'' = [13]"
    unfolding confirmed_levels_candle_frame by simp_all
  from close_iloc_candle_frame confirmed_levels_candle_frame s r show ?thesis by (intro conjI)
qed

text \<open>
  The processing loop of \<^verbatim>\<open>main.py\<close> hands the detector's result to the signal generator.
  Every level is a high or a low of a candle of the frame, so on candles with positive highs
  and lows every support and resistance level is positive.
\<close>

lemma levels_at_subset:
  "set (levels_at w nt high low i) \<subseteq> {high ! i, low ! i}"
  by (auto simp: levels_at_def Let_def)

lemma confirmed_levels_positive:
  assumes "\<forall>r\<in>set (rows df). 0 < r ''high'' \<and> 0 < r ''low''"
    and "level \<in> set (confirmed_levels df w nt)"
  shows "0 < level"
proof -
  from assms(2) obtain i where i: "w \<le> i" "i < length (rows df) - w"
    and l: "level \<in> set (levels_at w nt (map (\<lambda>r. r ''high'') (rows df))
                           (map (\<lambda>r. r ''low'') (rows df)) i)"
    unfolding confirmed_levels_set by auto
  from i have n: "i < length (rows df)" by simp
  then have m: "rows df ! i \<in> set (rows df)" by simp
  from l levels_at_subset [of w nt "map (\<lambda>r. r ''high'') (rows df)"
      "map (\<lambda>r. r ''low'') (rows df)" i]
  have "level = (rows df ! i) ''high'' \<or> level = (rows df ! i) ''low''"
    using n by auto
  with assms(1) m show ?thesis by auto
qed

lemma detected_levels_positive:
  assumes "\<forall>r\<in>set (rows df). 0 < r ''high'' \<and> 0 < r ''low''"
  shows "\<forall>level\<in>set (dict_get (detect_support_resistance df window num_touches) ''support'').
           0 < level"
    and "\<forall>level\<in>set (dict_get (detect_support_resistance df window num_touches)
                         ''resistance''). 0 < level"
  using detect_support_resistance_cases [of df window num_touches]
    confirmed_levels_positive [OF assms, of _ "nat window" num_touches]
  by auto

end
